theory Spec2Isabelle
  imports Complex_Main "HOL-Library.AList"
begin

section \<open>Python values and exceptions\<close>

text \<open>
  The transaction engine (class TransactionCore of transactioncore.py) is embedded
  function by function. A Python function that can raise returns a value of
  \<open>exn + 'a\<close>, with \<open>Inl\<close> for the exception. Python identifiers with a leading
  underscore lose it, since an Isabelle name cannot start with one. Python floats are
  modelled by the rational number they denote; every comparison of the source is then
  the exact comparison it is in Python.
\<close>

datatype exn =
    TypeError
  | KeyError
  | AttributeError
  | ValueError
  | ZeroDivisionError
  | IndexError
  | ContractLogicError
  | TransactionNotFound
  | ClientResponseError
  | OtherError

text \<open>
  \<open>exn\<close> ranges over the subclasses of \<open>Exception\<close>, which a handler
  \<open>except Exception\<close> catches. An awaited call can also end in
  \<open>asyncio.CancelledError\<close>, a \<open>BaseException\<close> that such a handler does not catch.
\<close>

datatype raised = Exc exn | Cancelled

text \<open>
  The values a transaction dict, a decoded call or an external signal can hold. A dict
  has string keys and keeps its insertion order, so it is an association list.
\<close>

datatype pyval =
    PNone
  | PBool bool
  | PInt int
  | PFloat rat
  | PStr string
  | PList "pyval list"
  | PTuple "pyval list"
  | PDict "(string \<times> pyval) list"

type_synonym pydict = "(string \<times> pyval) list"

text \<open>\<open>k in d\<close>, \<open>d.get(k, default)\<close> and Python's truth value of an object.\<close>

definition dict_has :: "pydict \<Rightarrow> string \<Rightarrow> bool" where
  "dict_has d k = (map_of d k \<noteq> None)"

definition dict_get :: "pydict \<Rightarrow> string \<Rightarrow> pyval \<Rightarrow> pyval" where
  "dict_get d k dflt = (case map_of d k of None \<Rightarrow> dflt | Some v \<Rightarrow> v)"

fun truthy :: "pyval \<Rightarrow> bool" where
  "truthy PNone = False"
| "truthy (PBool b) = b"
| "truthy (PInt i) = (i \<noteq> 0)"
| "truthy (PFloat r) = (r \<noteq> 0)"
| "truthy (PStr s) = (s \<noteq> [])"
| "truthy (PList xs) = (xs \<noteq> [])"
| "truthy (PTuple xs) = (xs \<noteq> [])"
| "truthy (PDict d) = (d \<noteq> [])"

section \<open>The collaborators and the configuration\<close>

text \<open>
  A relay of \<open>configuration.MEV_BUILDERS\<close>, and what one HTTP post to it can do:
  answer 2xx without an \<open>error\<close> field (\<open>Accepted\<close>), answer 2xx with an \<open>error\<close>
  field (\<open>ErrorField\<close>), fail \<open>raise_for_status\<close> (\<open>HttpError\<close>, aiohttp's
  ClientResponseError), deliver a body whose decoding raises ValueError (\<open>BadBody\<close>),
  or raise any other exception, a timeout included (\<open>TransportError\<close>).
\<close>

record builder =
  builder_name :: string
  builder_url :: string
  builder_auth_header :: string

datatype post_outcome = Accepted | ErrorField | HttpError | BadBody | TransportError

record bundle_payload =
  payload_txs :: "string list"
  payload_blockNumber :: int

text \<open>
  A contract handle (its address and the function names of its ABI) and a contract
  function call, ready to be built into a transaction.
\<close>

record contract =
  contract_address :: string
  contract_functions :: "string list"

record function_call =
  fc_contract :: string
  fc_function :: string
  fc_args :: "pyval list"
  fc_kwargs :: pydict

text \<open>
  A \<open>Decimal\<close>: an integer coefficient (with its sign) and a decimal exponent.
\<close>

type_synonym dec = "int \<times> int"

text \<open>
  The chain client, the nonce service, the relays, the market services, the ABI
  registry and the configuration, as far as the functions below consult them. A call
  that can raise yields \<open>exn + 'a\<close>; a call made for its effect yields \<open>exn option\<close>
  (\<open>None\<close>: it returned). The relay's answer may differ from attempt to attempt, so it
  depends on the attempt number, and so does the answer of the chain client to a
  broadcast. \<open>Decimal_of_str\<close> and \<open>float_of_str\<close> give the number a string denotes for
  Python's \<open>Decimal\<close> and \<open>float\<close> constructors, if it denotes one, and \<open>float_of_int\<close>
  the double nearest to an integer. \<open>np_std\<close> is numpy's standard deviation.
  \<open>float_sum\<close>, \<open>float_sub\<close>, \<open>float_mul\<close> and \<open>float_div\<close> are Python's \<open>sum\<close>,
  \<open>-\<close>, \<open>*\<close> and \<open>/\<close> on floats: the exact result rounded to a double (for
  \<open>float_div\<close> with a divisor other than zero; a zero divisor raises).
  \<open>FLASHLOAN_BACK_RUN_PROFIT_PERCENTAGE\<close> is the decimal that \<open>str\<close> of the configured
  percentage denotes. \<open>build_transaction\<close> (chain id, latest block, nonce, fee fields,
  gas estimate) is consulted only for whether it returns a transaction or raises.
\<close>

record env =
  account_sign :: "pydict \<Rightarrow> exn + string"
  eth_call :: "pydict \<Rightarrow> raised option"
  block_number :: "exn + int"
  send_raw_transaction :: "string \<Rightarrow> int \<Rightarrow> exn + string"
  to_checksum_address :: "pyval \<Rightarrow> exn + string"
  build_transaction :: "function_call \<Rightarrow> exn + pydict"
  relay_post :: "builder \<Rightarrow> bundle_payload \<Rightarrow> int \<Rightarrow> post_outcome"
  refresh_nonce :: "exn option"
  get_method_selector :: "pyval \<Rightarrow> exn + pyval"
  abis :: "string list"
  decode_function_input :: "string \<Rightarrow> string \<Rightarrow> pyval \<Rightarrow> exn + pyval"
  get_token_symbol :: "pyval \<Rightarrow> exn + pyval"
  get_price_change_24h :: "pyval \<Rightarrow> exn + pyval"
  get_real_time_price :: "pyval \<Rightarrow> exn + pyval"
  get_token_price_data :: "pyval \<Rightarrow> exn + pyval"
  predict_price_movement :: "pyval \<Rightarrow> exn + pyval"
  check_market_conditions :: "pyval \<Rightarrow> exn + pyval"
  Decimal_of_str :: "string \<Rightarrow> rat option"
  float_of_str :: "string \<Rightarrow> rat option"
  float_of_int :: "int \<Rightarrow> rat"
  np_std :: "rat list \<Rightarrow> rat"
  float_sum :: "rat list \<Rightarrow> rat"
  float_sub :: "rat \<Rightarrow> rat \<Rightarrow> rat"
  float_mul :: "rat \<Rightarrow> rat \<Rightarrow> rat"
  float_div :: "rat \<Rightarrow> rat \<Rightarrow> rat"
  aave_flashloan :: contract
  uniswap_router_contract :: "contract option"
  sushiswap_router_contract :: "contract option"
  UNISWAP_ADDRESS :: string
  SUSHISWAP_ADDRESS :: string
  MEV_BUILDERS :: "builder list"
  MEMPOOL_MAX_RETRIES :: int
  MEMPOOL_RETRY_DELAY :: rat
  MAX_GAS_PRICE_GWEI :: rat
  FLASHLOAN_BACK_RUN_PROFIT_PERCENTAGE :: dec
  AGGRESSIVE_FRONT_RUN_MIN_VALUE_ETH :: rat
  FRONT_RUN_OPPORTUNITY_SCORE_THRESHOLD :: rat
  VOLATILITY_FRONT_RUN_SCORE_THRESHOLD :: rat

text \<open>What the engine does to the outside world, in the order it does it.\<close>

datatype event =
    SimulateCall pydict
  | SendBundleCall "pydict list"
  | SignCall pydict
  | BroadcastCall string int
  | PostCall builder int post_outcome
  | SleepCall rat
  | RefreshNonceCall


section \<open>Strategy scorer: the opportunity score\<close>

text \<open>
  \<open>market_conditions\<close> is the dict of flags returned by the market monitor;
  \<open>get_flag mc k d\<close> is \<open>mc.get(k, d)\<close>.
\<close>

type_synonym market_conditions = "string \<rightharpoonup> bool"

definition get_flag :: "market_conditions \<Rightarrow> string \<Rightarrow> bool \<Rightarrow> bool" where
  "get_flag mc k d = (case mc k of None \<Rightarrow> d | Some b \<Rightarrow> b)"

text \<open>
  The five metrics of \<open>_calculate_opportunity_score\<close>, each the \<open>if/elif\<close> chain of
  the source applied to the running score. A float literal stands for the double it
  denotes: 5.0, 3.0, 1.0 and 0.5 are exact, and
  \<^item> 1.1 is \<open>2476979795053773 / 2 ^ 51\<close>, 1.05 is \<open>4728779608739021 / 2 ^ 52\<close>,
  \<^item> 0.02 is \<open>5764607523034235 / 2 ^ 58\<close>, 0.05 is \<open>3602879701896397 / 2 ^ 56\<close>,
    0.08 is \<open>5764607523034235 / 2 ^ 56\<close>.
  The arithmetic on prices is float arithmetic, whose rounding the environment gives.
  The last metric divides by the first historical price, which raises
  ZeroDivisionError when that price is zero.
\<close>

definition add_price_change :: "rat \<Rightarrow> int \<Rightarrow> int" where
  "add_price_change price_change score =
     (if price_change > 5 then score + 40
      else if price_change > 3 then score + 30
      else if price_change > 1 then score + 20
      else if price_change > 1 / 2 then score + 10
      else score)"

definition add_price_vs_average :: "env \<Rightarrow> rat \<Rightarrow> rat list \<Rightarrow> int \<Rightarrow> int" where
  "add_price_vs_average env current_price historical_prices score =
     (if historical_prices \<noteq> [] then
        (let avg_price = float_div env (float_sum env historical_prices)
                           (of_nat (length historical_prices))
         in if current_price > float_mul env avg_price (2476979795053773 / 2 ^ 51)
            then score + 10
            else if current_price > float_mul env avg_price (4728779608739021 / 2 ^ 52)
            then score + 5
            else score)
      else score)"

definition add_volatility :: "rat \<Rightarrow> int \<Rightarrow> int" where
  "add_volatility volatility score =
     (if volatility < 5764607523034235 / 2 ^ 58 then score + 20
      else if volatility < 3602879701896397 / 2 ^ 56 then score + 15
      else if volatility < 5764607523034235 / 2 ^ 56 then score + 10
      else score)"

definition add_market_conditions :: "market_conditions \<Rightarrow> int \<Rightarrow> int" where
  "add_market_conditions mc score =
     (let score = (if get_flag mc ''bullish_trend'' False then score + 10 else score);
          score = (if \<not> get_flag mc ''high_volatility'' True then score + 5 else score);
          score = (if \<not> get_flag mc ''low_liquidity'' True then score + 5 else score)
      in score)"

definition add_price_trend :: "env \<Rightarrow> rat list \<Rightarrow> int \<Rightarrow> exn + int" where
  "add_price_trend env historical_prices score =
     (if historical_prices \<noteq> [] \<and> length historical_prices > 1 then
        (if hd historical_prices = 0 then Inl ZeroDivisionError
         else
           (let recent_trend =
                  float_mul env
                    (float_sub env
                       (float_div env (last historical_prices) (hd historical_prices)) 1)
                    100
            in if recent_trend > 0 then Inr (score + 20)
               else if recent_trend > - 1 then Inr (score + 10)
               else Inr score))
      else Inr score)"

definition calculate_opportunity_score ::
  "env \<Rightarrow> rat \<Rightarrow> rat \<Rightarrow> market_conditions \<Rightarrow> rat \<Rightarrow> rat list \<Rightarrow> exn + int" where
  "calculate_opportunity_score env price_change volatility mc current_price historical_prices =
     (let score = 0;
          score = add_price_change price_change score;
          score = add_price_vs_average env current_price historical_prices score;
          score = add_volatility volatility score;
          score = add_market_conditions mc score
      in add_price_trend env historical_prices score)"

text \<open>
  The spec's reading of a band table (section 4.5): the bands of one metric are
  checked in descending order, and only the highest matching band contributes its
  points; a metric none of whose bands matches contributes nothing.
\<close>

fun spec_highest_band :: "(bool \<times> int) list \<Rightarrow> int" where
  "spec_highest_band [] = 0"
| "spec_highest_band ((matches, points) # bands) =
     (if matches then points else spec_highest_band bands)"


section \<open>Transaction builder: signing and simulation\<close>

text \<open>
  \<open>sign_transaction\<close> signs with the account's key and then formats the nonce into a
  log line, which raises KeyError when the transaction has no nonce; both handlers log
  and re-raise.
\<close>

definition sign_transaction :: "env \<Rightarrow> pydict \<Rightarrow> exn + string" where
  "sign_transaction env transaction =
     (case account_sign env transaction of
        Inl e \<Rightarrow> Inl e
      | Inr rawTransaction \<Rightarrow>
          if dict_has transaction ''nonce'' then Inr rawTransaction else Inl KeyError)"

text \<open>
  \<open>simulate_transaction\<close> calls the transaction against the pending block and turns
  every \<open>Exception\<close> into \<open>False\<close>; a cancellation of the call is not an
  \<open>Exception\<close> and leaves the function as it is.
\<close>

definition simulate_transaction :: "env \<Rightarrow> pydict \<Rightarrow> raised + bool" where
  "simulate_transaction env transaction =
     (case eth_call env transaction of
        None \<Rightarrow> Inr True
      | Some (Exc ContractLogicError) \<Rightarrow> Inr False
      | Some (Exc e) \<Rightarrow> Inr False
      | Some Cancelled \<Rightarrow> Inl Cancelled)"

section \<open>Bundle submitter\<close>

text \<open>
  The list comprehension that signs every transaction of the bundle stops at the
  first signature that raises.
\<close>

fun sign_all :: "env \<Rightarrow> pydict list \<Rightarrow> event list \<times> (exn + string list)" where
  "sign_all env [] = ([], Inr [])"
| "sign_all env (tx # txs) =
     (case sign_transaction env tx of
        Inl e \<Rightarrow> ([SignCall tx], Inl e)
      | Inr signed_tx \<Rightarrow>
          (case sign_all env txs of
             (evs, Inl e) \<Rightarrow> (SignCall tx # evs, Inl e)
           | (evs, Inr signed_txs) \<Rightarrow> (SignCall tx # evs, Inr (signed_tx # signed_txs))))"

text \<open>
  The inner loop \<open>for attempt in range(1, max_retries + 1)\<close> for one relay. It returns
  whether the relay's name was appended to \<open>successes\<close>. An \<open>error\<close> field raises
  ValueError inside the \<open>try\<close>, whose handler leaves the loop; ClientResponseError and
  any other exception sleep (unless it was the last attempt) and go on.
\<close>

fun relay_attempts :: "env \<Rightarrow> builder \<Rightarrow> bundle_payload \<Rightarrow> int list \<Rightarrow> event list \<times> bool" where
  "relay_attempts env b payload [] = ([], False)"
| "relay_attempts env b payload (attempt # rest) =
     (case relay_post env b payload attempt of
        Accepted \<Rightarrow> ([PostCall b attempt Accepted], True)
      | ErrorField \<Rightarrow> ([PostCall b attempt ErrorField], False)
      | BadBody \<Rightarrow> ([PostCall b attempt BadBody], False)
      | HttpError \<Rightarrow>
          (case relay_attempts env b payload rest of (evs, ok) \<Rightarrow>
             (PostCall b attempt HttpError #
                (if attempt < MEMPOOL_MAX_RETRIES env
                 then [SleepCall (MEMPOOL_RETRY_DELAY env * of_int attempt)] else []) @ evs,
              ok))
      | TransportError \<Rightarrow>
          (case relay_attempts env b payload rest of (evs, ok) \<Rightarrow>
             (PostCall b attempt TransportError #
                (if attempt < MEMPOOL_MAX_RETRIES env
                 then [SleepCall (MEMPOOL_RETRY_DELAY env * of_int attempt)] else []) @ evs,
              ok)))"

text \<open>The outer loop \<open>for builder in mev_builders\<close>; it returns \<open>successes\<close>.\<close>

fun builders_loop :: "env \<Rightarrow> bundle_payload \<Rightarrow> builder list \<Rightarrow> event list \<times> string list" where
  "builders_loop env payload [] = ([], [])"
| "builders_loop env payload (b # bs) =
     (case relay_attempts env b payload [1 .. MEMPOOL_MAX_RETRIES env] of (evs1, ok) \<Rightarrow>
        (case builders_loop env payload bs of (evs2, successes) \<Rightarrow>
           (evs1 @ evs2, (if ok then [builder_name b] else []) @ successes)))"

text \<open>The body of the \<open>try\<close> of \<open>send_bundle\<close>, and the function with its handler.\<close>

definition send_bundle_body :: "env \<Rightarrow> pydict list \<Rightarrow> event list \<times> (exn + bool)" where
  "send_bundle_body env transactions =
     (case sign_all env transactions of
        (evs0, Inl e) \<Rightarrow> (evs0, Inl e)
      | (evs0, Inr signed_txs) \<Rightarrow>
          (case block_number env of
             Inl e \<Rightarrow> (evs0, Inl e)
           | Inr n \<Rightarrow>
               (let payload = \<lparr>payload_txs = signed_txs, payload_blockNumber = n + 1\<rparr> in
                case builders_loop env payload (MEV_BUILDERS env) of (evs1, successes) \<Rightarrow>
                  if successes \<noteq> [] then
                    (case refresh_nonce env of
                       Some e \<Rightarrow> (evs0 @ evs1 @ [RefreshNonceCall], Inl e)
                     | None \<Rightarrow> (evs0 @ evs1 @ [RefreshNonceCall], Inr True))
                  else (evs0 @ evs1, Inr False))))"

definition send_bundle :: "env \<Rightarrow> pydict list \<Rightarrow> event list \<times> bool" where
  "send_bundle env transactions =
     (case send_bundle_body env transactions of
        (evs, Inl e) \<Rightarrow> (SendBundleCall transactions # evs, False)
      | (evs, Inr sent) \<Rightarrow> (SendBundleCall transactions # evs, sent))"

text \<open>
  \<open>_validate_and_send_bundle\<close>: every member is simulated, and
  \<open>asyncio.gather\<close> with \<open>return_exceptions=True\<close> collects for each member its
  result or the exception object it raised. \<open>simulation_failed\<close> is the test
  \<open>isinstance(result, Exception) or not result\<close>: an exception object that is not an
  \<open>Exception\<close> is a true value and passes it.
\<close>

fun simulation_failed :: "raised + bool \<Rightarrow> bool" where
  "simulation_failed (Inl (Exc e)) = True"
| "simulation_failed (Inl Cancelled) = False"
| "simulation_failed (Inr result) = (\<not> result)"

definition validate_and_send_bundle :: "env \<Rightarrow> pydict list \<Rightarrow> event list \<times> bool" where
  "validate_and_send_bundle env transactions =
     (let simulations = map (simulate_transaction env) transactions;
          evs = map SimulateCall transactions
      in if list_ex simulation_failed simulations
         then (evs, False)
         else (case send_bundle env transactions of (evs', sent) \<Rightarrow> (evs @ evs', sent)))"

text \<open>
  Reading a trace of effects: a relay accepted the bundle when a post to it was
  answered with \<open>Accepted\<close>.
\<close>

fun is_acceptance :: "event \<Rightarrow> bool" where
  "is_acceptance (PostCall b attempt Accepted) = True"
| "is_acceptance e = False"

definition some_relay_accepted :: "event list \<Rightarrow> bool" where
  "some_relay_accepted evs = list_ex is_acceptance evs"

definition refresh_count :: "event list \<Rightarrow> nat" where
  "refresh_count evs = length (filter (\<lambda>e. e = RefreshNonceCall) evs)"


section \<open>Transaction builder: execution with retries\<close>

text \<open>
  \<open>Decimal(v)\<close> for the value of a transaction field: integers, floats and booleans
  convert, a string converts when it denotes a number, anything else raises.
\<close>

definition py_Decimal :: "env \<Rightarrow> pyval \<Rightarrow> exn + rat" where
  "py_Decimal env v =
     (case v of
        PInt i \<Rightarrow> Inr (of_int i)
      | PFloat r \<Rightarrow> Inr r
      | PBool b \<Rightarrow> Inr (if b then 1 else 0)
      | PStr s \<Rightarrow> (case Decimal_of_str env s of None \<Rightarrow> Inl OtherError | Some r \<Rightarrow> Inr r)
      | PNone \<Rightarrow> Inl TypeError
      | PList xs \<Rightarrow> Inl ValueError
      | PTuple xs \<Rightarrow> Inl ValueError
      | PDict d \<Rightarrow> Inl TypeError)"

definition DEFAULT_GAS_PRICE_GWEI :: int where
  "DEFAULT_GAS_PRICE_GWEI = 50"

text \<open>
  The \<open>try\<close> body of one attempt of \<open>execute_transaction\<close>: sign, then broadcast
  through \<open>call_contract_function\<close>, which logs and re-raises what
  \<open>send_raw_transaction\<close> raises.
\<close>

definition call_contract_function :: "env \<Rightarrow> string \<Rightarrow> int \<Rightarrow> exn + string" where
  "call_contract_function env signed_tx attempt =
     (case send_raw_transaction env signed_tx attempt of
        Inl e \<Rightarrow> Inl e
      | Inr tx_hash \<Rightarrow> Inr tx_hash)"

definition try_send :: "env \<Rightarrow> pydict \<Rightarrow> int \<Rightarrow> event list \<times> (exn + string)" where
  "try_send env tx attempt =
     (case sign_transaction env tx of
        Inl e \<Rightarrow> ([SignCall tx], Inl e)
      | Inr signed_tx \<Rightarrow>
          ([SignCall tx, BroadcastCall signed_tx attempt],
           call_contract_function env signed_tx attempt))"

text \<open>
  The loop \<open>for attempt in range(1, max_retries + 1)\<close>. A failed attempt is logged
  (and, unless the exception is TransactionNotFound or ContractLogicError, followed by
  a sleep of \<open>retry_delay * (attempt + 1)\<close>); then the gas price of the transaction is
  read outside the \<open>try\<close> and compared with the ceiling. Leaving the loop returns
  \<open>None\<close>.
\<close>

fun execute_attempts :: "env \<Rightarrow> pydict \<Rightarrow> int list \<Rightarrow> event list \<times> (exn + string option)" where
  "execute_attempts env tx [] = ([], Inr None)"
| "execute_attempts env tx (attempt # rest) =
     (case try_send env tx attempt of
        (evs, Inr tx_hash) \<Rightarrow> (evs, Inr (Some tx_hash))
      | (evs, Inl e) \<Rightarrow>
          (let evs1 = evs @
                 (if e = TransactionNotFound \<or> e = ContractLogicError then []
                  else [SleepCall (MEMPOOL_RETRY_DELAY env * of_int (attempt + 1))])
           in case py_Decimal env (dict_get tx ''gasPrice'' (PInt DEFAULT_GAS_PRICE_GWEI)) of
                Inl e' \<Rightarrow> (evs1, Inl e')
              | Inr gas_price_gwei \<Rightarrow>
                  if gas_price_gwei > MAX_GAS_PRICE_GWEI env then (evs1, Inr None)
                  else (case execute_attempts env tx rest of
                          (evs2, r) \<Rightarrow> (evs1 @ evs2, r))))"

definition execute_transaction :: "env \<Rightarrow> pydict \<Rightarrow> event list \<times> (exn + string option)" where
  "execute_transaction env tx = execute_attempts env tx [1 .. MEMPOOL_MAX_RETRIES env]"

text \<open>The number of attempts in a trace: each attempt starts by signing.\<close>

fun is_sign :: "event \<Rightarrow> bool" where
  "is_sign (SignCall tx) = True"
| "is_sign e = False"

definition attempts_made :: "event list \<Rightarrow> nat" where
  "attempts_made evs = length (filter is_sign evs)"


section \<open>Flashloan amount: Python's Decimal arithmetic\<close>

text \<open>
  The value of a \<open>Decimal\<close>, the number of decimal digits of its coefficient (one for
  zero) and \<open>int.bit_length\<close>.
\<close>

definition dec_value :: "dec \<Rightarrow> rat" where
  "dec_value d =
     (if snd d \<ge> 0 then of_int (fst d * 10 ^ nat (snd d))
      else of_int (fst d) / of_int (10 ^ nat (- snd d)))"


fun bit_length :: "nat \<Rightarrow> nat" where
  "bit_length n = (if n = 0 then 0 else Suc (bit_length (n div 2)))"

declare bit_length.simps [simp del]




text \<open>
  \<open>Decimal(x)\<close> converts a number exactly. For a float it takes the integer ratio
  \<open>n / d\<close> in lowest terms, where \<open>d\<close> is a power of two, and with
  \<open>k = d.bit_length() - 1\<close> yields the coefficient \<open>n * 5 ^ k\<close> and the exponent \<open>- k\<close>.
\<close>

definition Decimal_from_float :: "rat \<Rightarrow> dec" where
  "Decimal_from_float r =
     (case quotient_of r of (n, d) \<Rightarrow>
        (let k = bit_length (nat d) - 1 in (n * 5 ^ k, - int k)))"








section \<open>Concrete scenarios\<close>

text \<open>
  Two relays, of which the first answers every post with a transport error and the
  second accepts at once; a transaction that simulates successfully, one that
  reverts and one whose simulation call is cancelled. Signing, the block number and the nonce refresh succeed. The registry knows
  the selector of \<open>swapExactTokensForTokens\<close>, which the uniswap ABI decodes to a
  path of two tokens; the Uniswap router is initialised, the Sushiswap router is not. The
  float operations are taken without rounding error.
\<close>

definition relay_a :: builder where
  "relay_a = \<lparr>builder_name = ''relay_a'', builder_url = ''https://a.example'',
              builder_auth_header = ''X-Auth-A''\<rparr>"

definition relay_b :: builder where
  "relay_b = \<lparr>builder_name = ''relay_b'', builder_url = ''https://b.example'',
              builder_auth_header = ''X-Auth-B''\<rparr>"

definition tx_ok :: pydict where
  "tx_ok = [(''nonce'', PInt 7), (''gasPrice'', PInt 50)]"

definition tx_reverting :: pydict where
  "tx_reverting = [(''nonce'', PInt 8), (''gasPrice'', PInt 50)]"

definition tx_cancelled :: pydict where
  "tx_cancelled = [(''nonce'', PInt 10), (''gasPrice'', PInt 50)]"

definition scenario_env :: env where
  "scenario_env =
     \<lparr>account_sign = (\<lambda>tx. Inr ''signed''),
      eth_call = (\<lambda>tx. if tx = tx_reverting then Some (Exc ContractLogicError)
         else if tx = tx_cancelled then Some Cancelled else None),
      block_number = Inr 100,
      send_raw_transaction = (\<lambda>raw attempt. Inl OtherError),
      to_checksum_address = (\<lambda>a. case a of PStr s \<Rightarrow> Inr s | _ \<Rightarrow> Inl TypeError),
      build_transaction = (\<lambda>fc. Inr ((''nonce'', PInt 7) # fc_kwargs fc)),
      relay_post = (\<lambda>b payload attempt.
         if builder_name b = ''relay_b'' then Accepted else TransportError),
      refresh_nonce = None,
      get_method_selector = (\<lambda>sel. if sel = PStr ''38ed1739''
         then Inr (PStr ''swapExactTokensForTokens'') else Inr PNone),
      abis = [''erc20'', ''uniswap''],
      decode_function_input = (\<lambda>abi_type address input_data.
         if abi_type = ''uniswap''
         then Inr (PDict [(''amountIn'', PInt 1000), (''path'', PList [PStr ''0xWETH'', PStr ''0xDAI''])])
         else Inl ValueError),
      get_token_symbol = (\<lambda>a. if a = PStr ''0xWETH'' then Inr (PStr ''WETH'') else Inr PNone),
      get_price_change_24h = (\<lambda>s. Inr (PFloat 12)),
      get_real_time_price = (\<lambda>s. Inr (PFloat 100)),
      get_token_price_data = (\<lambda>s. Inr (PList [PFloat 100, PFloat 101])),
      predict_price_movement = (\<lambda>s. Inr (PFloat 110)),
      check_market_conditions = (\<lambda>a. Inr (PDict [(''bullish_trend'', PBool True),
         (''high_volatility'', PBool False), (''low_liquidity'', PBool False)])),
      Decimal_of_str = (\<lambda>s. None),
      float_of_str = (\<lambda>s. None),
      float_of_int = (\<lambda>i. of_int i),
      np_std = (\<lambda>xs. 0),
      float_sum = sum_list,
      float_sub = (\<lambda>x y. x - y),
      float_mul = (\<lambda>x y. x * y),
      float_div = (\<lambda>x y. x / y),
      aave_flashloan = \<lparr>contract_address = ''0xAAVE'',
         contract_functions = [''fn_RequestFlashLoan'', ''withdrawETH'']\<rparr>,
      uniswap_router_contract = Some \<lparr>contract_address = ''0xROUTER'',
         contract_functions = [''swapExactTokensForTokens'']\<rparr>,
      sushiswap_router_contract = None,
      UNISWAP_ADDRESS = ''0xROUTER'',
      SUSHISWAP_ADDRESS = ''0xSUSHI'',
      MEV_BUILDERS = [relay_a, relay_b],
      MEMPOOL_MAX_RETRIES = 2,
      MEMPOOL_RETRY_DELAY = 1,
      MAX_GAS_PRICE_GWEI = 100,
      FLASHLOAN_BACK_RUN_PROFIT_PERCENTAGE = (5, - 1),
      AGGRESSIVE_FRONT_RUN_MIN_VALUE_ETH = 1 / 10,
      FRONT_RUN_OPPORTUNITY_SCORE_THRESHOLD = 75,
      VOLATILITY_FRONT_RUN_SCORE_THRESHOLD = 75\<rparr>"

definition tx_expensive :: pydict where
  "tx_expensive = [(''nonce'', PInt 9), (''gasPrice'', PInt 150)]"


section \<open>Properties of the bundle submitter\<close>

lemma send_bundle_first_event:
  "\<exists>evs. fst (send_bundle env txs) = SendBundleCall txs # evs"
  by (simp add: send_bundle_def split: prod.split sum.split)

text \<open>
  What the gate of \<open>_validate_and_send_bundle\<close> does achieve: when a simulation
  returns false, which is what \<open>simulate_transaction\<close> makes of every \<open>Exception\<close>,
  the function returns false and its only effects are the simulations.
\<close>

lemma validate_and_send_bundle_rejects_false:
  assumes "\<exists>tx \<in> set txs. simulate_transaction env tx = Inr False"
  shows "validate_and_send_bundle env txs = (map SimulateCall txs, False)"
proof -
  obtain tx where tx: "tx \<in> set txs" "simulate_transaction env tx = Inr False"
    using assms by blast
  then have "simulation_failed (simulate_transaction env tx)"
    by simp
  then have "list_ex simulation_failed (map (simulate_transaction env) txs)"
    using tx(1) by (auto simp add: list_ex_iff)
  then show ?thesis
    by (simp add: validate_and_send_bundle_def Let_def)
qed

text \<open>
  C1. The claim fails on the code: a member whose simulation raises
  \<open>asyncio.CancelledError\<close> passes the gate, and the bundle is signed and posted to
  the relays although that member was never simulated successfully. Here the
  simulation of the only member is cancelled, \<open>send_bundle\<close> is called, relay_b
  accepts the bundle and the function returns true.
\<close>

theorem validate_and_send_bundle_cancelled_simulation:
  "simulate_transaction scenario_env tx_cancelled = Inl Cancelled \<and>
   validate_and_send_bundle scenario_env [tx_cancelled] =
     ([SimulateCall tx_cancelled, SendBundleCall [tx_cancelled], SignCall tx_cancelled,
       PostCall relay_a 1 TransportError, SleepCall 1, PostCall relay_a 2 TransportError,
       PostCall relay_b 1 Accepted, RefreshNonceCall], True)"
  by (simp add: validate_and_send_bundle_def simulate_transaction_def send_bundle_def
        send_bundle_body_def sign_transaction_def dict_has_def scenario_env_def
        tx_ok_def tx_reverting_def tx_cancelled_def relay_a_def relay_b_def upto.simps Let_def)

lemma sign_all_events:
  "e \<in> set (fst (sign_all env txs)) \<Longrightarrow> \<exists>tx. e = SignCall tx"
  by (induction txs arbitrary: e) (auto split: sum.splits prod.splits)

lemma relay_attempts_ok_iff:
  "snd (relay_attempts env b payload attempts)
     \<longleftrightarrow> list_ex is_acceptance (fst (relay_attempts env b payload attempts))"
  by (induction attempts) (auto split: post_outcome.splits prod.splits)

lemma relay_attempts_no_refresh:
  "RefreshNonceCall \<notin> set (fst (relay_attempts env b payload attempts))"
  by (induction attempts) (auto split: post_outcome.splits prod.splits)

lemma builders_loop_successes_iff:
  "snd (builders_loop env payload bs) \<noteq> []
     \<longleftrightarrow> list_ex is_acceptance (fst (builders_loop env payload bs))"
proof (induction bs)
  case Nil
  show ?case by simp
next
  case (Cons b bs)
  obtain evs1 ok where r: "relay_attempts env b payload [1 .. MEMPOOL_MAX_RETRIES env] = (evs1, ok)"
    by (cases "relay_attempts env b payload [1 .. MEMPOOL_MAX_RETRIES env]")
  obtain evs2 successes where l: "builders_loop env payload bs = (evs2, successes)"
    by (cases "builders_loop env payload bs")
  have ok: "ok \<longleftrightarrow> list_ex is_acceptance evs1"
    using relay_attempts_ok_iff [of env b payload "[1 .. MEMPOOL_MAX_RETRIES env]"] r by simp
  have rest: "successes \<noteq> [] \<longleftrightarrow> list_ex is_acceptance evs2"
    using Cons.IH l by simp
  show ?case using r l ok rest by (auto simp add: list_ex_iff)
qed

lemma builders_loop_no_refresh:
  "RefreshNonceCall \<notin> set (fst (builders_loop env payload bs))"
proof (induction bs)
  case Nil
  show ?case by simp
next
  case (Cons b bs)
  then show ?case
    using relay_attempts_no_refresh [of env b payload "[1 .. MEMPOOL_MAX_RETRIES env]"]
    by (auto split: prod.splits)
qed

lemma sign_all_no_acceptance:
  "\<not> list_ex is_acceptance (fst (sign_all env txs))"
proof
  assume "list_ex is_acceptance (fst (sign_all env txs))"
  then obtain e where e: "e \<in> set (fst (sign_all env txs))" "is_acceptance e"
    by (auto simp add: list_ex_iff)
  then obtain tx where "e = SignCall tx" using sign_all_events by blast
  then show False using e by simp
qed

lemma sign_all_no_refresh:
  "RefreshNonceCall \<notin> set (fst (sign_all env txs))"
  using sign_all_events [of RefreshNonceCall env txs] by auto

lemma refresh_count_none:
  "RefreshNonceCall \<notin> set evs \<Longrightarrow> refresh_count evs = 0"
  by (induction evs) (auto simp add: refresh_count_def)

lemma refresh_count_append:
  "refresh_count (xs @ ys) = refresh_count xs + refresh_count ys"
  by (simp add: refresh_count_def)

lemma some_relay_accepted_append:
  "some_relay_accepted (xs @ ys) \<longleftrightarrow> some_relay_accepted xs \<or> some_relay_accepted ys"
  by (auto simp add: some_relay_accepted_def list_ex_iff)

lemma send_bundle_body_cases:
  "(\<not> some_relay_accepted (fst (send_bundle_body env txs)) \<and>
      RefreshNonceCall \<notin> set (fst (send_bundle_body env txs)) \<and>
      snd (send_bundle_body env txs) \<noteq> Inr True) \<or>
   (some_relay_accepted (fst (send_bundle_body env txs)) \<and>
      refresh_count (fst (send_bundle_body env txs)) = 1 \<and>
      snd (send_bundle_body env txs)
        = (case refresh_nonce env of None \<Rightarrow> Inr True | Some e \<Rightarrow> Inl e))"
proof -
  obtain evs0 signed where s: "sign_all env txs = (evs0, signed)"
    by (cases "sign_all env txs")
  have a0: "\<not> some_relay_accepted evs0"
    using sign_all_no_acceptance [of env txs] s by (simp add: some_relay_accepted_def)
  have r0: "RefreshNonceCall \<notin> set evs0"
    using sign_all_no_refresh [of env txs] s by simp
  show ?thesis
  proof (cases signed)
    case (Inl e)
    then show ?thesis using s a0 r0 by (simp add: send_bundle_body_def)
  next
    case (Inr signed_txs)
    note signed = this
    show ?thesis
    proof (cases "block_number env")
      case (Inl e)
      then show ?thesis using s signed a0 r0 by (simp add: send_bundle_body_def)
    next
      case (Inr n)
      let ?payload = "\<lparr>payload_txs = signed_txs, payload_blockNumber = n + 1\<rparr>"
      obtain evs1 successes
        where l: "builders_loop env ?payload (MEV_BUILDERS env) = (evs1, successes)"
        by (cases "builders_loop env ?payload (MEV_BUILDERS env)")
      have a1: "successes \<noteq> [] \<longleftrightarrow> some_relay_accepted evs1"
        using builders_loop_successes_iff [of env ?payload "MEV_BUILDERS env"] l
        by (simp add: some_relay_accepted_def)
      have r1: "RefreshNonceCall \<notin> set evs1"
        using builders_loop_no_refresh [of env ?payload "MEV_BUILDERS env"] l by simp
      show ?thesis
      proof (cases "successes = []")
        case True
        then have "send_bundle_body env txs = (evs0 @ evs1, Inr False)"
          using s signed Inr l by (simp add: send_bundle_body_def)
        then show ?thesis
          using True a0 a1 r0 r1 by (simp add: some_relay_accepted_append)
      next
        case False
        then have body: "send_bundle_body env txs =
            (evs0 @ evs1 @ [RefreshNonceCall],
             case refresh_nonce env of None \<Rightarrow> Inr True | Some e \<Rightarrow> Inl e)"
          using s signed Inr l by (simp add: send_bundle_body_def split: option.split)
        have "refresh_count (evs0 @ evs1 @ [RefreshNonceCall]) = 1"
          using refresh_count_none [OF r0] refresh_count_none [OF r1]
          by (simp add: refresh_count_append) (simp add: refresh_count_def)
        then show ?thesis
          using False a1 body by (simp add: some_relay_accepted_append)
      qed
    qed
  qed
qed

lemma send_bundle_unfold:
  "send_bundle env txs =
     (SendBundleCall txs # fst (send_bundle_body env txs),
      snd (send_bundle_body env txs) = Inr True)"
  by (cases "send_bundle_body env txs") (auto simp add: send_bundle_def split: sum.split)

text \<open>
  C5, as amended. \<open>send_bundle\<close> returns true if and only if at least one configured
  relay accepts the bundle and the nonce service's \<open>refresh_nonce\<close> then returns
  without raising. When a relay accepts, \<open>refresh_nonce\<close> is invoked exactly once; when
  none accepts, the result is false and \<open>refresh_nonce\<close> is not invoked.
\<close>

theorem send_bundle_at_least_one_relay:
  "(snd (send_bundle env txs) \<longleftrightarrow>
      some_relay_accepted (fst (send_bundle env txs)) \<and> refresh_nonce env = None) \<and>
   (some_relay_accepted (fst (send_bundle env txs)) \<longrightarrow>
      refresh_count (fst (send_bundle env txs)) = 1) \<and>
   (\<not> some_relay_accepted (fst (send_bundle env txs)) \<longrightarrow>
      \<not> snd (send_bundle env txs) \<and> RefreshNonceCall \<notin> set (fst (send_bundle env txs)))"
proof -
  let ?evs = "fst (send_bundle_body env txs)"
  have acc: "some_relay_accepted (SendBundleCall txs # ?evs) \<longleftrightarrow> some_relay_accepted ?evs"
    by (simp add: some_relay_accepted_def)
  have cnt: "refresh_count (SendBundleCall txs # ?evs) = refresh_count ?evs"
    by (simp add: refresh_count_def)
  show ?thesis
    using send_bundle_body_cases [of env txs] acc cnt
    by (auto simp add: send_bundle_unfold split: option.splits)
qed

theorem send_bundle_at_least_one_relay_witness:
  "send_bundle scenario_env [tx_ok] =
     ([SendBundleCall [tx_ok], SignCall tx_ok,
       PostCall relay_a 1 TransportError, SleepCall 1, PostCall relay_a 2 TransportError,
       PostCall relay_b 1 Accepted, RefreshNonceCall], True) \<and>
   some_relay_accepted (fst (send_bundle scenario_env [tx_ok])) \<and>
   refresh_count (fst (send_bundle scenario_env [tx_ok])) = 1 \<and>
   \<not> some_relay_accepted (fst (send_bundle (scenario_env\<lparr>MEV_BUILDERS := [relay_a]\<rparr>) [tx_ok])) \<and>
   \<not> snd (send_bundle (scenario_env\<lparr>MEV_BUILDERS := [relay_a]\<rparr>) [tx_ok])"
  using send_bundle_at_least_one_relay [of scenario_env "[tx_ok]"]
        send_bundle_at_least_one_relay [of "scenario_env\<lparr>MEV_BUILDERS := [relay_a]\<rparr>" "[tx_ok]"]
  by (simp add: send_bundle_def send_bundle_body_def sign_transaction_def dict_has_def
        scenario_env_def tx_ok_def relay_a_def relay_b_def upto.simps
        some_relay_accepted_def refresh_count_def Let_def)

text \<open>
  The claim as stated fails when \<open>refresh_nonce\<close> raises: the relay has accepted the
  bundle, the exception reaches the handler of \<open>send_bundle\<close>, and the result is false.
\<close>

theorem send_bundle_refresh_raises_counterexample:
  "some_relay_accepted (fst (send_bundle (scenario_env\<lparr>refresh_nonce := Some OtherError\<rparr>) [tx_ok])) \<and>
   snd (send_bundle (scenario_env\<lparr>refresh_nonce := Some OtherError\<rparr>) [tx_ok]) = False"
  by (simp add: send_bundle_def send_bundle_body_def sign_transaction_def dict_has_def
        scenario_env_def tx_ok_def relay_a_def relay_b_def upto.simps
        some_relay_accepted_def Let_def)


section \<open>Properties of execution with retries\<close>

lemma try_send_attempts:
  "attempts_made (fst (try_send env tx attempt)) = 1"
  by (simp add: try_send_def attempts_made_def split: sum.split)

lemma execute_attempts_all_fail:
  assumes "py_Decimal env (dict_get tx ''gasPrice'' (PInt DEFAULT_GAS_PRICE_GWEI)) = Inr g"
    and "\<forall>a \<in> set attempts. isl (snd (try_send env tx a))"
  shows "snd (execute_attempts env tx attempts) = Inr None"
  using assms(2)
proof (induction attempts)
  case Nil
  show ?case by simp
next
  case (Cons a attempts)
  obtain evs e where t: "try_send env tx a = (evs, Inl e)"
    using Cons.prems by (cases "try_send env tx a") (auto simp add: isl_def)
  have "snd (execute_attempts env tx attempts) = Inr None"
    using Cons by simp
  then show ?case
    using t assms(1)
    by (cases "execute_attempts env tx attempts") (simp add: Let_def)
qed

lemma execute_attempts_hard_stop:
  assumes "py_Decimal env (dict_get tx ''gasPrice'' (PInt DEFAULT_GAS_PRICE_GWEI)) = Inr g"
    and "g > MAX_GAS_PRICE_GWEI env"
    and "isl (snd (try_send env tx a))"
  shows "snd (execute_attempts env tx (a # rest)) = Inr None \<and>
         attempts_made (fst (execute_attempts env tx (a # rest))) = 1"
proof -
  obtain evs e where t: "try_send env tx a = (evs, Inl e)"
    using assms(3) by (cases "try_send env tx a") (auto simp add: isl_def)
  have "attempts_made evs = 1"
    using try_send_attempts [of env tx a] t by simp
  then show ?thesis
    using t assms(1,2) by (simp add: Let_def attempts_made_def)
qed

text \<open>
  C3. For a transaction whose gas price (the field \<open>gasPrice\<close>, or the default of 50
  when it is absent) is a number: if it exceeds the configured ceiling and the first
  attempt fails, \<open>execute_transaction\<close> returns \<open>None\<close> after that single attempt,
  however many attempts remain; and if every attempt fails it returns \<open>None\<close>, not an
  exception.
\<close>

theorem execute_transaction_gas_ceiling_hard_stop:
  assumes "py_Decimal env (dict_get tx ''gasPrice'' (PInt DEFAULT_GAS_PRICE_GWEI)) = Inr g"
  shows "(g > MAX_GAS_PRICE_GWEI env \<and> 1 \<le> MEMPOOL_MAX_RETRIES env \<and>
            isl (snd (try_send env tx 1)) \<longrightarrow>
          snd (execute_transaction env tx) = Inr None \<and>
          attempts_made (fst (execute_transaction env tx)) = 1) \<and>
         ((\<forall>a. 1 \<le> a \<and> a \<le> MEMPOOL_MAX_RETRIES env \<longrightarrow> isl (snd (try_send env tx a))) \<longrightarrow>
          snd (execute_transaction env tx) = Inr None)"
proof (intro conjI impI)
  assume h: "g > MAX_GAS_PRICE_GWEI env \<and> 1 \<le> MEMPOOL_MAX_RETRIES env \<and>
             isl (snd (try_send env tx 1))"
  then have u: "[1 .. MEMPOOL_MAX_RETRIES env] = 1 # [2 .. MEMPOOL_MAX_RETRIES env]"
    by (simp add: upto.simps)
  show "snd (execute_transaction env tx) = Inr None"
    using execute_attempts_hard_stop [OF assms, of 1 "[2 .. MEMPOOL_MAX_RETRIES env]"] h u
    by (simp add: execute_transaction_def)
  show "attempts_made (fst (execute_transaction env tx)) = 1"
    using execute_attempts_hard_stop [OF assms, of 1 "[2 .. MEMPOOL_MAX_RETRIES env]"] h u
    by (simp add: execute_transaction_def)
next
  assume "\<forall>a. 1 \<le> a \<and> a \<le> MEMPOOL_MAX_RETRIES env \<longrightarrow> isl (snd (try_send env tx a))"
  then have "\<forall>a \<in> set [1 .. MEMPOOL_MAX_RETRIES env]. isl (snd (try_send env tx a))"
    by simp
  then show "snd (execute_transaction env tx) = Inr None"
    using execute_attempts_all_fail [OF assms] by (simp add: execute_transaction_def)
qed

theorem execute_transaction_gas_ceiling_hard_stop_witness:
  "py_Decimal scenario_env (dict_get tx_expensive ''gasPrice'' (PInt DEFAULT_GAS_PRICE_GWEI))
     = Inr 150 \<and>
   150 > MAX_GAS_PRICE_GWEI scenario_env \<and> 1 \<le> MEMPOOL_MAX_RETRIES scenario_env \<and>
   isl (snd (try_send scenario_env tx_expensive 1)) \<and>
   execute_transaction scenario_env tx_expensive
     = ([SignCall tx_expensive, BroadcastCall ''signed'' 1, SleepCall 2], Inr None) \<and>
   MEMPOOL_MAX_RETRIES scenario_env = 2 \<and>
   isl (snd (try_send scenario_env tx_ok 1)) \<and> isl (snd (try_send scenario_env tx_ok 2)) \<and>
   execute_transaction scenario_env tx_ok
     = ([SignCall tx_ok, BroadcastCall ''signed'' 1, SleepCall 2,
         SignCall tx_ok, BroadcastCall ''signed'' 2, SleepCall 3], Inr None)"
proof -
  have d1: "py_Decimal scenario_env
              (dict_get tx_expensive ''gasPrice'' (PInt DEFAULT_GAS_PRICE_GWEI)) = Inr 150"
    by (simp add: py_Decimal_def dict_get_def tx_expensive_def)
  have d2: "py_Decimal scenario_env
              (dict_get tx_ok ''gasPrice'' (PInt DEFAULT_GAS_PRICE_GWEI)) = Inr 50"
    by (simp add: py_Decimal_def dict_get_def tx_ok_def)
  have fails: "\<forall>a. 1 \<le> a \<and> a \<le> MEMPOOL_MAX_RETRIES scenario_env \<longrightarrow>
                 isl (snd (try_send scenario_env tx_ok a))"
    by (simp add: try_send_def call_contract_function_def sign_transaction_def
          dict_has_def scenario_env_def tx_ok_def)
  have none: "snd (execute_transaction scenario_env tx_ok) = Inr None"
    using execute_transaction_gas_ceiling_hard_stop [OF d2] fails by blast
  show ?thesis
    using execute_transaction_gas_ceiling_hard_stop [OF d1] none
    by (simp add: execute_transaction_def try_send_def call_contract_function_def
          sign_transaction_def dict_has_def dict_get_def py_Decimal_def scenario_env_def
          tx_ok_def tx_expensive_def upto.simps Let_def)
qed


section \<open>Properties of the flashloan amount\<close>

lemma dec_value_powi: "dec_value d = of_int (fst d) * (10 powi snd d)"
  by (simp add: dec_value_def power_int_def field_simps)






lemma bit_length_power2: "bit_length (2 ^ k) = Suc k"
proof (induction k)
  case 0
  show ?case by (simp add: bit_length.simps [of "Suc 0"] bit_length.simps [of 0])
next
  case (Suc k)
  show ?case using Suc by (simp add: bit_length.simps [of "2 * 2 ^ k"])
qed

lemma quotient_of_dyadic:
  assumes "odd n"
  shows "quotient_of (of_int n / 2 ^ k) = (n, 2 ^ k)"
proof -
  have "coprime n (2 ^ k)"
    using assms by simp
  then have "Rat.normalize (n, 2 ^ k) = (n, 2 ^ k)"
    by (simp add: normalize_stable)
  moreover have "(of_int n / 2 ^ k :: rat) = Fract n (2 ^ k)"
    by (simp add: Fract_of_int_quotient)
  ultimately show ?thesis
    by (simp add: quotient_of_Fract)
qed

text \<open>The conversion of a float \<open>n / 2 ^ k\<close> (\<open>n\<close> odd) to a Decimal, which is exact.\<close>

lemma Decimal_from_float_dyadic:
  assumes "odd n"
  shows "Decimal_from_float (of_int n / 2 ^ k) = (n * 5 ^ k, - int k)"
  using quotient_of_dyadic [OF assms, of k] bit_length_power2 [of k]
  by (simp add: Decimal_from_float_def Let_def nat_power_eq)

lemma Decimal_from_float_value:
  assumes "odd n"
  shows "dec_value (Decimal_from_float (of_int n / 2 ^ k)) = of_int n / 2 ^ k"
proof -
  have d: "Decimal_from_float (of_int n / 2 ^ k) = (n * 5 ^ k, - int k)"
    by (rule Decimal_from_float_dyadic [OF assms])
  have p: "(10::rat) ^ k = 2 ^ k * 5 ^ k"
    by (simp flip: power_mult_distrib)
  have "dec_value (n * 5 ^ k, - int k) = of_int n * 5 ^ k / 10 ^ k"
    by (simp add: dec_value_powi power_int_minus field_simps)
  also have "\<dots> = of_int n / 2 ^ k"
    by (simp add: p)
  finally show ?thesis
    unfolding d .
qed








section \<open>Properties of the opportunity score\<close>

text \<open>Each metric adds to the running score the points of its highest matching band.\<close>

lemma add_price_change_band:
  "add_price_change pc score = score +
     spec_highest_band [(pc > 5, 40), (pc > 3, 30), (pc > 1, 20), (pc > 1 / 2, 10)]"
  by (simp add: add_price_change_def)

lemma add_price_vs_average_band:
  "add_price_vs_average env cp hp score = score +
     spec_highest_band
       [(hp \<noteq> [] \<and> cp > float_mul env
            (float_div env (float_sum env hp) (of_nat (length hp)))
            (2476979795053773 / 2 ^ 51), 10),
        (hp \<noteq> [] \<and> cp > float_mul env
            (float_div env (float_sum env hp) (of_nat (length hp)))
            (4728779608739021 / 2 ^ 52), 5)]"
  by (simp add: add_price_vs_average_def Let_def)

lemma add_volatility_band:
  "add_volatility v score = score +
     spec_highest_band
       [(v < 5764607523034235 / 2 ^ 58, 20), (v < 3602879701896397 / 2 ^ 56, 15),
        (v < 5764607523034235 / 2 ^ 56, 10)]"
  by (simp add: add_volatility_def)

lemma add_market_conditions_flags:
  "add_market_conditions mc score = score +
     (if mc ''bullish_trend'' = Some True then 10 else 0) +
     (if mc ''high_volatility'' = Some False then 5 else 0) +
     (if mc ''low_liquidity'' = Some False then 5 else 0)"
  by (simp add: add_market_conditions_def get_flag_def Let_def split: option.split)

lemma add_price_trend_band:
  "add_price_trend env hp score =
     (if 1 < length hp \<and> hd hp = 0 then Inl ZeroDivisionError
      else Inr (score +
        spec_highest_band
          [(1 < length hp \<and>
              float_mul env (float_sub env (float_div env (last hp) (hd hp)) 1) 100 > 0, 20),
           (1 < length hp \<and>
              float_mul env (float_sub env (float_div env (last hp) (hd hp)) 1) 100 > - 1,
            10)]))"
  by (auto simp add: add_price_trend_def Let_def)

lemma calculate_opportunity_score_sum:
  "calculate_opportunity_score env pc v mc cp hp =
     (if 1 < length hp \<and> hd hp = 0 then Inl ZeroDivisionError
      else Inr
       (spec_highest_band [(pc > 5, 40), (pc > 3, 30), (pc > 1, 20), (pc > 1 / 2, 10)] +
        spec_highest_band
          [(hp \<noteq> [] \<and> cp > float_mul env
               (float_div env (float_sum env hp) (of_nat (length hp)))
               (2476979795053773 / 2 ^ 51), 10),
           (hp \<noteq> [] \<and> cp > float_mul env
               (float_div env (float_sum env hp) (of_nat (length hp)))
               (4728779608739021 / 2 ^ 52), 5)] +
        spec_highest_band
          [(v < 5764607523034235 / 2 ^ 58, 20), (v < 3602879701896397 / 2 ^ 56, 15),
           (v < 5764607523034235 / 2 ^ 56, 10)] +
        (if mc ''bullish_trend'' = Some True then 10 else 0) +
        (if mc ''high_volatility'' = Some False then 5 else 0) +
        (if mc ''low_liquidity'' = Some False then 5 else 0) +
        spec_highest_band
          [(1 < length hp \<and>
              float_mul env (float_sub env (float_div env (last hp) (hd hp)) 1) 100 > 0, 20),
           (1 < length hp \<and>
              float_mul env (float_sub env (float_div env (last hp) (hd hp)) 1) 100 > - 1,
            10)]))"
proof -
  have "calculate_opportunity_score env pc v mc cp hp =
          add_price_trend env hp
            (add_market_conditions mc
              (add_volatility v (add_price_vs_average env cp hp (add_price_change pc 0))))"
    by (simp add: calculate_opportunity_score_def Let_def)
  then show ?thesis
    by (simp only: add_price_trend_band add_market_conditions_flags add_volatility_band
          add_price_vs_average_band add_price_change_band add_0)
qed

lemma price_change_band_mono:
  "pc1 \<le> pc2 \<Longrightarrow>
     spec_highest_band [(pc1 > 5, 40), (pc1 > 3, 30), (pc1 > 1, 20), (pc1 > 1 / 2, 10)]
       \<le> spec_highest_band [(pc2 > 5, 40), (pc2 > 3, 30), (pc2 > 1, 20), (pc2 > (1 / 2 :: rat), 10)]"
  by simp

lemma score_shape:
  "\<exists>rest. \<forall>pc. calculate_opportunity_score env pc v mc cp hp =
     (if 1 < length hp \<and> hd hp = 0 then Inl ZeroDivisionError
      else Inr (spec_highest_band [(pc > 5, 40), (pc > 3, 30), (pc > 1, 20), (pc > 1 / 2, 10)]
                + rest))"
proof -
  define rest where "rest =
        spec_highest_band
          [(hp \<noteq> [] \<and> cp > float_mul env
               (float_div env (float_sum env hp) (of_nat (length hp)))
               (2476979795053773 / 2 ^ 51), 10),
           (hp \<noteq> [] \<and> cp > float_mul env
               (float_div env (float_sum env hp) (of_nat (length hp)))
               (4728779608739021 / 2 ^ 52), 5)] +
        spec_highest_band
          [(v < 5764607523034235 / 2 ^ 58, 20), (v < 3602879701896397 / 2 ^ 56, 15),
           (v < 5764607523034235 / 2 ^ 56, 10)] +
        (if mc ''bullish_trend'' = Some True then 10 else 0) +
        (if mc ''high_volatility'' = Some False then 5 else 0) +
        (if mc ''low_liquidity'' = Some False then 5 else 0) +
        spec_highest_band
          [(1 < length hp \<and>
              float_mul env (float_sub env (float_div env (last hp) (hd hp)) 1) 100 > 0, 20),
           (1 < length hp \<and>
              float_mul env (float_sub env (float_div env (last hp) (hd hp)) 1) 100 > - 1,
            10)]"
  have "calculate_opportunity_score env pc v mc cp hp =
     (if 1 < length hp \<and> hd hp = 0 then Inl ZeroDivisionError
      else Inr (spec_highest_band [(pc > 5, 40), (pc > 3, 30), (pc > 1, 20), (pc > 1 / 2, 10)]
                + rest))" for pc
    unfolding rest_def
    by (simp only: calculate_opportunity_score_sum add.assoc)
  then show ?thesis by blast
qed

lemma opportunity_score_price_change_steps:
  "(pc1 \<le> pc2 \<longrightarrow>
      isl (calculate_opportunity_score env pc1 v mc cp hp)
        = isl (calculate_opportunity_score env pc2 v mc cp hp) \<and>
      (\<forall>s1 s2. calculate_opportunity_score env pc1 v mc cp hp = Inr s1 \<and>
               calculate_opportunity_score env pc2 v mc cp hp = Inr s2 \<longrightarrow> s1 \<le> s2)) \<and>
   (\<forall>s pc'. calculate_opportunity_score env 5 v mc cp hp = Inr s \<and> 5 < pc' \<longrightarrow>
        calculate_opportunity_score env pc' v mc cp hp = Inr (s + 10)) \<and>
   (\<forall>s pc'. calculate_opportunity_score env 3 v mc cp hp = Inr s \<and> 3 < pc' \<and> pc' \<le> 5 \<longrightarrow>
        calculate_opportunity_score env pc' v mc cp hp = Inr (s + 10)) \<and>
   (\<forall>s pc'. calculate_opportunity_score env 1 v mc cp hp = Inr s \<and> 1 < pc' \<and> pc' \<le> 3 \<longrightarrow>
        calculate_opportunity_score env pc' v mc cp hp = Inr (s + 10)) \<and>
   (\<forall>s pc'. calculate_opportunity_score env (1 / 2) v mc cp hp = Inr s \<and>
             1 / 2 < pc' \<and> pc' \<le> 1 \<longrightarrow>
        calculate_opportunity_score env pc' v mc cp hp = Inr (s + 10)) \<and>
   (\<forall>pc'. pc' \<le> 1 / 2 \<longrightarrow>
        calculate_opportunity_score env pc' v mc cp hp
          = calculate_opportunity_score env (1 / 2) v mc cp hp)"
proof -
  obtain rest where shape: "\<And>pc. calculate_opportunity_score env pc v mc cp hp =
     (if 1 < length hp \<and> hd hp = 0 then Inl ZeroDivisionError
      else Inr (spec_highest_band [(pc > 5, 40), (pc > 3, 30), (pc > 1, 20), (pc > 1 / 2, 10)]
                + rest))"
    using score_shape [of env v mc cp hp] by blast
  have mono: "spec_highest_band [(pc1 > 5, 40), (pc1 > 3, 30), (pc1 > 1, 20), (pc1 > 1 / 2, 10)]
       \<le> spec_highest_band [(pc2 > 5, 40), (pc2 > 3, 30), (pc2 > 1, 20), (pc2 > 1 / 2, 10)]"
    if "pc1 \<le> pc2"
    using that by (rule price_change_band_mono)
  show ?thesis
  proof (intro conjI)
    show "pc1 \<le> pc2 \<longrightarrow>
      isl (calculate_opportunity_score env pc1 v mc cp hp)
        = isl (calculate_opportunity_score env pc2 v mc cp hp) \<and>
      (\<forall>s1 s2. calculate_opportunity_score env pc1 v mc cp hp = Inr s1 \<and>
               calculate_opportunity_score env pc2 v mc cp hp = Inr s2 \<longrightarrow> s1 \<le> s2)"
      using mono unfolding shape by (cases "1 < length hp \<and> hd hp = 0") auto
  qed (auto simp add: shape)
qed

text \<open>
  C9. The opportunity score is computed unless the trend term divides by a first
  historical price of zero, and then it is the sum over the metrics of the points
  of the single highest matching band of each: 40/30/20/10 for a price change above
  5/3/1/0.5, 10/5 for a current price above 1.1/1.05 times the historical mean,
  20/15/10 for a volatility below 0.02/0.05/0.08, 10 for the bullish flag, 5 each for
  a high-volatility and a low-liquidity flag that is present and false, 20/10 for a
  trend above 0/-1. So the score never decreases when the price change grows with
  the other inputs fixed, and every price-change boundary is strict: at exactly 5.0
  (3.0, 1.0, 0.5) the score is 10 points below what any price change in the band
  above that threshold earns (5.01, for one, in the band above 5.0).
\<close>

theorem opportunity_score_bands_monotone_strict:
  "calculate_opportunity_score env pc v mc cp hp =
     (if 1 < length hp \<and> hd hp = 0 then Inl ZeroDivisionError
      else Inr
       (spec_highest_band [(pc > 5, 40), (pc > 3, 30), (pc > 1, 20), (pc > 1 / 2, 10)] +
        spec_highest_band
          [(hp \<noteq> [] \<and> cp > float_mul env
               (float_div env (float_sum env hp) (of_nat (length hp)))
               (2476979795053773 / 2 ^ 51), 10),
           (hp \<noteq> [] \<and> cp > float_mul env
               (float_div env (float_sum env hp) (of_nat (length hp)))
               (4728779608739021 / 2 ^ 52), 5)] +
        spec_highest_band
          [(v < 5764607523034235 / 2 ^ 58, 20), (v < 3602879701896397 / 2 ^ 56, 15),
           (v < 5764607523034235 / 2 ^ 56, 10)] +
        (if mc ''bullish_trend'' = Some True then 10 else 0) +
        (if mc ''high_volatility'' = Some False then 5 else 0) +
        (if mc ''low_liquidity'' = Some False then 5 else 0) +
        spec_highest_band
          [(1 < length hp \<and>
              float_mul env (float_sub env (float_div env (last hp) (hd hp)) 1) 100 > 0, 20),
           (1 < length hp \<and>
              float_mul env (float_sub env (float_div env (last hp) (hd hp)) 1) 100 > - 1,
            10)])) \<and>
   (pc1 \<le> pc2 \<longrightarrow>
      isl (calculate_opportunity_score env pc1 v mc cp hp)
        = isl (calculate_opportunity_score env pc2 v mc cp hp) \<and>
      (\<forall>s1 s2. calculate_opportunity_score env pc1 v mc cp hp = Inr s1 \<and>
               calculate_opportunity_score env pc2 v mc cp hp = Inr s2 \<longrightarrow> s1 \<le> s2)) \<and>
   (\<forall>s pc'. calculate_opportunity_score env 5 v mc cp hp = Inr s \<and> 5 < pc' \<longrightarrow>
        calculate_opportunity_score env pc' v mc cp hp = Inr (s + 10)) \<and>
   (\<forall>s pc'. calculate_opportunity_score env 3 v mc cp hp = Inr s \<and> 3 < pc' \<and> pc' \<le> 5 \<longrightarrow>
        calculate_opportunity_score env pc' v mc cp hp = Inr (s + 10)) \<and>
   (\<forall>s pc'. calculate_opportunity_score env 1 v mc cp hp = Inr s \<and> 1 < pc' \<and> pc' \<le> 3 \<longrightarrow>
        calculate_opportunity_score env pc' v mc cp hp = Inr (s + 10)) \<and>
   (\<forall>s pc'. calculate_opportunity_score env (1 / 2) v mc cp hp = Inr s \<and>
             1 / 2 < pc' \<and> pc' \<le> 1 \<longrightarrow>
        calculate_opportunity_score env pc' v mc cp hp = Inr (s + 10)) \<and>
   (\<forall>pc'. pc' \<le> 1 / 2 \<longrightarrow>
        calculate_opportunity_score env pc' v mc cp hp
          = calculate_opportunity_score env (1 / 2) v mc cp hp)"
  by (rule conjI [OF calculate_opportunity_score_sum opportunity_score_price_change_steps])

theorem opportunity_score_bands_monotone_strict_witness:
  "(3 :: rat) \<le> 6 \<and>
   calculate_opportunity_score scenario_env 3 (1 / 100) [''bullish_trend'' \<mapsto> True] 100
     [100, 101] = Inr 70 \<and>
   calculate_opportunity_score scenario_env 6 (1 / 100) [''bullish_trend'' \<mapsto> True] 100
     [100, 101] = Inr 90 \<and>
   calculate_opportunity_score scenario_env 5 (1 / 100) [''bullish_trend'' \<mapsto> True] 100
     [100, 101] = Inr 80 \<and>
   (5 :: rat) < 501 / 100 \<and>
   calculate_opportunity_score scenario_env (501 / 100) (1 / 100) [''bullish_trend'' \<mapsto> True]
     100 [100, 101] = Inr 90 \<and>
   calculate_opportunity_score scenario_env 1 (1 / 100) [''bullish_trend'' \<mapsto> True] 100
     [100, 101] = Inr 60 \<and>
   calculate_opportunity_score scenario_env (1 / 2) (1 / 100) [''bullish_trend'' \<mapsto> True] 100
     [100, 101] = Inr 50 \<and>
   calculate_opportunity_score scenario_env 0 (1 / 100) [''bullish_trend'' \<mapsto> True] 100
     [100, 101] = Inr 50"
  using opportunity_score_bands_monotone_strict
          [of scenario_env 3 "1 / 100" "[''bullish_trend'' \<mapsto> True]" 100 "[100, 101]" 3 6]
  by (simp add: calculate_opportunity_score_def add_price_change_def
        add_price_vs_average_def add_volatility_def add_market_conditions_def
        add_price_trend_def get_flag_def scenario_env_def Let_def)


end
